theory Spec2Isabelle
  imports Main "HOL-Library.Sublist"
begin

section \<open>Python values and truthiness\<close>

text \<open>
  \<^verbatim>\<open>is_node_ready\<close> is annotated \<^verbatim>\<open>-> bool\<close>, but one of its return statements hands back
  \<^verbatim>\<open>condition.status\<close> unchanged, and the Kubernetes client declares that field a
  \<^verbatim>\<open>str\<close> (one of "True", "False", "Unknown"). The value that reaches
  \<^verbatim>\<open>not is_node_ready(node)\<close> is therefore a Python object that is either a bool or a
  string, and \<^verbatim>\<open>not\<close> tests its truthiness: a bool is its own truth value, a string is
  truthy exactly when it is not empty.
\<close>

datatype pyval = PyBool bool | PyStr string

fun truthy :: "pyval \<Rightarrow> bool" where
  "truthy (PyBool b) = b"
| "truthy (PyStr s) = (s \<noteq> [])"

section \<open>Node descriptors\<close>

text \<open>
  The parts of \<^verbatim>\<open>kubernetes.client.V1Node\<close> that the script reads:
  \<^verbatim>\<open>node.metadata.name\<close>, \<^verbatim>\<open>node.status.conditions\<close>, and of each condition its
  \<^verbatim>\<open>type\<close> and \<^verbatim>\<open>status\<close>. The two fields of a condition are called
  \<open>cond_type\<close> and \<open>cond_status\<close> here, since \<open>status\<close> is already the field of the node.
  The record \<open>V1Node\<close> describes a node whose condition list is present; a node whose
  \<^verbatim>\<open>conditions\<close> attribute is \<^verbatim>\<open>None\<close> is added further down, as \<open>listed_node\<close>.
\<close>

record V1NodeCondition =
  cond_type :: string
  cond_status :: pyval

record V1ObjectMeta =
  name :: string

record V1NodeStatus =
  conditions :: "V1NodeCondition list"

record V1Node =
  metadata :: V1ObjectMeta
  status :: V1NodeStatus

section \<open>Exceptions and logging\<close>

text \<open>
  \<^verbatim>\<open>terminate_nodes\<close> catches \<^verbatim>\<open>ApiException\<close> and nothing else, so the model keeps
  two kinds of exception apart: \<open>ApiException\<close> (the class and its subclasses) and
  \<open>OtherException\<close> (every exception that \<^verbatim>\<open>except ApiException\<close> does not match,
  such as a connection error raised below the REST layer). The string is the message.
\<close>

datatype exn = ApiException string | OtherException string

text \<open>
  A call of \<^verbatim>\<open>log.debug\<close>, \<^verbatim>\<open>log.info\<close> or \<^verbatim>\<open>log.error\<close> is recorded as a pair of
  its level and an event that carries the values interpolated into the f-string.
\<close>

datatype level = DEBUG | INFO | WARNING | ERROR

fun levelno :: "level \<Rightarrow> nat" where
  "levelno DEBUG = 10"
| "levelno INFO = 20"
| "levelno WARNING = 30"
| "levelno ERROR = 40"

datatype event =
    NoReadyCondition string "V1NodeCondition list"
  | FoundNodes "string list"
  | NodesToBeDeleted "string list"
  | DryRunDetected
  | DeletedNode string
  | ErrorDeletingNode string exn

type_synonym log_record = "level \<times> event"

section \<open>Readiness and the cleanup filter\<close>

text \<open>
  The \<^verbatim>\<open>for condition in node.status.conditions\<close> loop of \<^verbatim>\<open>is_node_ready\<close>: the first
  condition of type 'Ready' decides and ends the loop; \<open>None\<close> stands for the loop running
  to its end without a return.
\<close>

fun is_node_ready_loop :: "V1NodeCondition list \<Rightarrow> pyval option" where
  "is_node_ready_loop [] = None"
| "is_node_ready_loop (condition # rest) =
     (if cond_type condition = ''Ready'' then
        (if cond_status condition = PyStr ''Unknown'' then Some (PyBool False)
         else Some (cond_status condition))
      else is_node_ready_loop rest)"

definition is_node_ready :: "V1Node \<Rightarrow> pyval \<times> log_record list" where
  "is_node_ready node =
     (case is_node_ready_loop (conditions (status node)) of
        Some r \<Rightarrow> (r, [])
      | None \<Rightarrow>
          (PyBool True,
           [(ERROR, NoReadyCondition (name (metadata node)) (conditions (status node)))]))"

text \<open>
  The list comprehension of \<^verbatim>\<open>nodes_for_cleanup\<close>, left to right; the second component
  collects what the calls of \<^verbatim>\<open>is_node_ready\<close> logged, in order.
\<close>

fun nodes_for_cleanup :: "V1Node list \<Rightarrow> V1Node list \<times> log_record list" where
  "nodes_for_cleanup [] = ([], [])"
| "nodes_for_cleanup (node # nodes) =
     (case is_node_ready node of (ready, logged) \<Rightarrow>
        (case nodes_for_cleanup nodes of (not_ready, logged') \<Rightarrow>
           (if \<not> truthy ready then node # not_ready else not_ready, logged @ logged')))"

section \<open>The cluster API client\<close>

text \<open>
  \<^verbatim>\<open>client.core.delete_node\<close> belongs to the Kubernetes client library, not to this
  script. What the control plane answers is a parameter \<open>api\<close> of the model: given the
  cluster state and the argument of the request it yields how the call ends and the new
  cluster state. A call either returns or raises. The client value carries the cluster
  state together with the delete requests issued through it so far, each with its
  result, oldest first; that list is what "a deletion was attempted" refers to. The
  \<^verbatim>\<open>body\<close> and \<^verbatim>\<open>propagation_policy\<close> arguments are the same in every call and are left
  out.
\<close>

datatype call_result = Returned | Raised exn

type_synonym ('c, 'n) api = "'c \<Rightarrow> 'n \<Rightarrow> call_result \<times> 'c"

record ('c, 'n) KubeClient =
  cluster :: 'c
  delete_requests :: "('n \<times> call_result) list"

definition delete_node ::
  "('c, 'n) api \<Rightarrow> ('c, 'n) KubeClient \<Rightarrow> 'n \<Rightarrow> call_result \<times> ('c, 'n) KubeClient" where
  "delete_node api client node =
     (case api (cluster client) node of
        (r, c') \<Rightarrow>
          (r, client\<lparr>cluster := c', delete_requests := delete_requests client @ [(node, r)]\<rparr>))"

section \<open>Deleting nodes\<close>

text \<open>
  The loop of \<^verbatim>\<open>terminate_nodes\<close> with its two accumulators. A call that returns appends
  the node to \<^verbatim>\<open>success\<close>; an \<^verbatim>\<open>ApiException\<close> is caught, appended to \<^verbatim>\<open>errors\<close>
  with its node, and the loop continues; any other exception is not caught and leaves
  the function (\<open>Inl\<close>). \<open>is_ApiException\<close> is the match of the \<^verbatim>\<open>except\<close> clause. The elements of the list are whatever the caller passes:
  \<^verbatim>\<open>main\<close> passes node names.
\<close>

fun is_ApiException :: "exn \<Rightarrow> bool" where
  "is_ApiException (ApiException m) = True"
| "is_ApiException (OtherException m) = False"

fun terminate_nodes_loop ::
  "('c, 'n) api \<Rightarrow> ('c, 'n) KubeClient \<Rightarrow> 'n list \<Rightarrow> 'n list \<Rightarrow> ('n \<times> exn) list \<Rightarrow>
     (exn + 'n list \<times> ('n \<times> exn) list) \<times> ('c, 'n) KubeClient" where
  "terminate_nodes_loop api client [] success errors = (Inr (success, errors), client)"
| "terminate_nodes_loop api client (node # nodes) success errors =
     (case delete_node api client node of
        (Returned, client') \<Rightarrow>
          terminate_nodes_loop api client' nodes (success @ [node]) errors
      | (Raised e, client') \<Rightarrow>
          (if is_ApiException e
           then terminate_nodes_loop api client' nodes success (errors @ [(node, e)])
           else (Inl e, client')))"

definition terminate_nodes ::
  "('c, 'n) api \<Rightarrow> ('c, 'n) KubeClient \<Rightarrow> 'n list \<Rightarrow>
     (exn + 'n list \<times> ('n \<times> exn) list) \<times> ('c, 'n) KubeClient" where
  "terminate_nodes api client nodes = terminate_nodes_loop api client nodes [] []"

text \<open>
  Two notions used to speak about a call of \<^verbatim>\<open>terminate_nodes\<close>: the results that end
  its loop early (an exception the \<^verbatim>\<open>except\<close> clause does not match), and the delete
  requests issued between two states of the client.
\<close>

fun aborts :: "call_result \<Rightarrow> bool" where
  "aborts Returned = False"
| "aborts (Raised e) = (\<not> is_ApiException e)"

definition requests_since ::
  "('c, 'n) KubeClient \<Rightarrow> ('c, 'n) KubeClient \<Rightarrow> ('n \<times> call_result) list" where
  "requests_since client client' =
     drop (length (delete_requests client)) (delete_requests client')"

section \<open>The run\<close>

text \<open>
  \<^verbatim>\<open>main\<close> from the point where \<^verbatim>\<open>parse_args\<close>, \<^verbatim>\<open>KubeClient()\<close> and
  \<^verbatim>\<open>get_all_nodes\<close> have returned: its inputs are the parsed flags, the cluster state
  behind the fresh client and the node list that \<^verbatim>\<open>get_all_nodes\<close> returned. A run ends
  by falling off the end of \<^verbatim>\<open>main\<close>, by \<^verbatim>\<open>sys.exit(1)\<close>, or by an exception that
  nothing catches; the interpreter turns these into the exit statuses 0, 1 and 1.
  \<^verbatim>\<open>logging.basicConfig\<close> sets the threshold: records below it are dropped.
\<close>

record args =
  verbose :: bool
  dry_run :: bool

datatype exit = Finished | SystemExit nat | Uncaught exn


definition logging_level :: "args \<Rightarrow> level" where
  "logging_level a = (if verbose a then DEBUG else WARNING)"

definition emitted :: "level \<Rightarrow> log_record list \<Rightarrow> log_record list" where
  "emitted threshold records = filter (\<lambda>r. levelno threshold \<le> levelno (fst r)) records"

record 'c run =
  how_ended :: exit
  logged :: "log_record list"
  kube :: "('c, string) KubeClient"

text \<open>
  Lines 90 to 94 of the script: the branch on \<^verbatim>\<open>dry_run\<close> that binds \<^verbatim>\<open>success\<close> and
  \<^verbatim>\<open>errors\<close>. The result is what \<^verbatim>\<open>terminate_nodes\<close> gave (or the two empty lists),
  the client afterwards, and what the branch logged.
\<close>

definition main_deletions ::
  "('c, string) api \<Rightarrow> args \<Rightarrow> ('c, string) KubeClient \<Rightarrow> V1Node list \<Rightarrow>
     (exn + string list \<times> (string \<times> exn) list) \<times> ('c, string) KubeClient \<times> log_record list" where
  "main_deletions api a kube_client filtered_nodes =
     (if \<not> dry_run a then
        (case terminate_nodes api kube_client (map (\<lambda>node. name (metadata node)) filtered_nodes) of
           (outcome, kube_client') \<Rightarrow> (outcome, kube_client', []))
      else (Inr ([], []), kube_client, [(INFO, DryRunDetected)]))"

definition main :: "('c, string) api \<Rightarrow> args \<Rightarrow> 'c \<Rightarrow> V1Node list \<Rightarrow> 'c run" where
  "main api a c all_nodes =
     (let kube_client = \<lparr>cluster = c, delete_requests = []\<rparr>;
          log1 = [(DEBUG, FoundNodes (map (\<lambda>node. name (metadata node)) all_nodes))];
          (filtered_nodes, log2) = nodes_for_cleanup all_nodes;
          log3 = [(DEBUG, NodesToBeDeleted (map (\<lambda>node. name (metadata node)) filtered_nodes))];
          (outcome, kube_client', log4) = main_deletions api a kube_client filtered_nodes
      in (case outcome of
            Inl e \<Rightarrow>
              \<lparr>how_ended = Uncaught e,
               logged = emitted (logging_level a) (log1 @ log2 @ log3 @ log4),
               kube = kube_client'\<rparr>
          | Inr (success, errors) \<Rightarrow>
              \<lparr>how_ended = (if errors \<noteq> [] then SystemExit 1 else Finished),
               logged = emitted (logging_level a)
                 (log1 @ log2 @ log3 @ log4
                  @ map (\<lambda>node_name. (INFO, DeletedNode node_name)) success
                  @ map (\<lambda>(node_name, exception). (ERROR, ErrorDeletingNode node_name exception))
                      errors),
               kube = kube_client'\<rparr>))"

section \<open>Nodes without a condition list, and what each loop visits\<close>

text \<open>
  The client library leaves \<^verbatim>\<open>node.status.conditions\<close> at \<^verbatim>\<open>None\<close> when the API object
  carries no condition at all. A \<open>listed_node\<close> is a node as \<^verbatim>\<open>get_all_nodes\<close> hands it
  over: its name and the \<^verbatim>\<open>conditions\<close> attribute, which is \<^verbatim>\<open>None\<close> or a list;
  \<open>listed\<close> embeds the nodes described by \<open>V1Node\<close>. On \<^verbatim>\<open>None\<close>, the \<^verbatim>\<open>for\<close>
  statement on line 67 raises \<^verbatim>\<open>TypeError\<close> before anything else happens, and nothing in
  the script catches it.
\<close>

record listed_node =
  listed_metadata :: V1ObjectMeta
  listed_conditions :: "V1NodeCondition list option"

definition listed :: "V1Node \<Rightarrow> listed_node" where
  "listed node =
     \<lparr>listed_metadata = metadata node, listed_conditions = Some (conditions (status node))\<rparr>"


text \<open>
  The loop of \<^verbatim>\<open>is_node_ready\<close> once more, line by line as \<open>is_node_ready_loop\<close>, now
  also returning the conditions that were bound to \<^verbatim>\<open>condition\<close>, in order.
\<close>

fun is_node_ready_visits :: "V1NodeCondition list \<Rightarrow> pyval option \<times> V1NodeCondition list" where
  "is_node_ready_visits [] = (None, [])"
| "is_node_ready_visits (condition # rest) =
     (if cond_type condition = ''Ready'' then
        (if cond_status condition = PyStr ''Unknown'' then (Some (PyBool False), [condition])
         else (Some (cond_status condition), [condition]))
      else (case is_node_ready_visits rest of
              (r, visited) \<Rightarrow> (r, condition # visited)))"

text \<open>
  \<^verbatim>\<open>is_node_ready\<close> on a listed node. \<open>returned\<close> is the value returned or (\<open>Inl\<close>) the
  exception raised; \<open>conditions_read\<close> lists the condition objects the call read, in
  order: those the loop visited and, when the loop ran to its end, the whole list again,
  which the f-string on line 72 formats into the error message.
\<close>

record ready_run =
  returned :: "exn + pyval"
  run_log :: "log_record list"
  conditions_read :: "V1NodeCondition list"

definition is_node_ready_listed :: "listed_node \<Rightarrow> ready_run" where
  "is_node_ready_listed node =
     (case listed_conditions node of
        None \<Rightarrow>
          \<lparr>returned = Inl (OtherException ''TypeError''), run_log = [], conditions_read = []\<rparr>
      | Some cs \<Rightarrow>
          (case is_node_ready_visits cs of
             (Some r, visited) \<Rightarrow>
               \<lparr>returned = Inr r, run_log = [], conditions_read = visited\<rparr>
           | (None, visited) \<Rightarrow>
               \<lparr>returned = Inr (PyBool True),
                run_log = [(ERROR, NoReadyCondition (name (listed_metadata node)) cs)],
                conditions_read = visited @ cs\<rparr>))"

text \<open>
  The comprehension of \<^verbatim>\<open>nodes_for_cleanup\<close> on listed nodes: an exception raised by
  \<^verbatim>\<open>is_node_ready\<close> ends it. \<open>nodes_visited\<close> lists the nodes handed to
  \<^verbatim>\<open>is_node_ready\<close>, in order.
\<close>

record cleanup_run =
  selected :: "exn + listed_node list"
  cleanup_log :: "log_record list"
  nodes_visited :: "listed_node list"

fun nodes_for_cleanup_listed :: "listed_node list \<Rightarrow> cleanup_run" where
  "nodes_for_cleanup_listed [] = \<lparr>selected = Inr [], cleanup_log = [], nodes_visited = []\<rparr>"
| "nodes_for_cleanup_listed (node # nodes) =
     (case returned (is_node_ready_listed node) of
        Inl e \<Rightarrow>
          \<lparr>selected = Inl e,
           cleanup_log = run_log (is_node_ready_listed node),
           nodes_visited = [node]\<rparr>
      | Inr ready \<Rightarrow>
          \<lparr>selected =
             (case selected (nodes_for_cleanup_listed nodes) of
                Inl e \<Rightarrow> Inl e
              | Inr not_ready \<Rightarrow> Inr (if \<not> truthy ready then node # not_ready else not_ready)),
           cleanup_log =
             run_log (is_node_ready_listed node) @ cleanup_log (nodes_for_cleanup_listed nodes),
           nodes_visited = node # nodes_visited (nodes_for_cleanup_listed nodes)\<rparr>)"

section \<open>Sample inputs\<close>

text \<open>
  Concrete nodes and control planes on which the theorems below are evaluated: a node
  with a single condition, a node whose \<^verbatim>\<open>conditions\<close> attribute is \<^verbatim>\<open>None\<close>, a control
  plane that accepts every request (counting them),
  one that answers the request for node \<^verbatim>\<open>b\<close> with an \<^verbatim>\<open>ApiException\<close>, and one that
  cannot be reached, so that every call raises below the REST layer.
\<close>

definition node_with :: "string \<Rightarrow> string \<Rightarrow> pyval \<Rightarrow> V1Node" where
  "node_with n t s =
     \<lparr>metadata = \<lparr>name = n\<rparr>,
      status = \<lparr>conditions = [\<lparr>cond_type = t, cond_status = s\<rparr>]\<rparr>\<rparr>"

definition node_without_conditions :: listed_node where
  "node_without_conditions = \<lparr>listed_metadata = \<lparr>name = ''n''\<rparr>, listed_conditions = None\<rparr>"

definition accepting_api :: "(nat, string) api" where
  "accepting_api c n = (Returned, Suc c)"

definition rejecting_b_api :: "(nat, string) api" where
  "rejecting_b_api c n =
     (if n = ''b'' then (Raised (ApiException ''Forbidden''), c) else (Returned, Suc c))"

definition unreachable_api :: "(nat, string) api" where
  "unreachable_api c n = (Raised (OtherException ''Connection refused''), c)"

definition fresh_client :: "(nat, string) KubeClient" where
  "fresh_client = \<lparr>cluster = 0, delete_requests = []\<rparr>"

section \<open>Properties of the readiness test and the filter\<close>

lemma is_node_ready_loop_find:
  "is_node_ready_loop cs =
     (case find (\<lambda>c. cond_type c = ''Ready'') cs of
        None \<Rightarrow> None
      | Some c \<Rightarrow> Some (if cond_status c = PyStr ''Unknown'' then PyBool False else cond_status c))"
  by (induction cs) simp_all


lemma fst_nodes_for_cleanup:
  "fst (nodes_for_cleanup nodes) = filter (\<lambda>node. \<not> truthy (fst (is_node_ready node))) nodes"
  by (induction nodes) (auto split: prod.splits)

lemma snd_nodes_for_cleanup:
  "snd (nodes_for_cleanup nodes) = concat (map (\<lambda>node. snd (is_node_ready node)) nodes)"
  by (induction nodes) (auto split: prod.splits)

lemma not_ready_logs_nothing:
  "\<not> truthy (fst (is_node_ready node)) \<Longrightarrow> snd (is_node_ready node) = []"
  by (simp add: is_node_ready_def split: option.splits)

lemma ready_status_is_returned:
  assumes "find (\<lambda>c. cond_type c = ''Ready'') (conditions (status node)) = Some c"
    and "cond_status c \<noteq> PyStr ''Unknown''"
  shows "is_node_ready node = (cond_status c, [])"
  using assms by (simp add: is_node_ready_def is_node_ready_loop_find)

text \<open>
  C1 says that a node whose 'Ready' condition has status "False" is classified as not
  ready and selected for deletion. The script does the opposite: \<^verbatim>\<open>is_node_ready\<close>
  returns the status string itself, the string "False" is not empty and so is truthy, and
  \<^verbatim>\<open>nodes_for_cleanup\<close> leaves the node out. Evaluated on a cluster whose only node is
  \<^verbatim>\<open>a\<close> with the single condition Ready = "False": nothing is selected, and a run that is
  not a dry run sends no delete request and ends normally.
\<close>

theorem ready_false_string_is_kept:
  "is_node_ready (node_with ''a'' ''Ready'' (PyStr ''False'')) = (PyStr ''False'', []) \<and>
   truthy (PyStr ''False'') \<and>
   nodes_for_cleanup [node_with ''a'' ''Ready'' (PyStr ''False'')] = ([], []) \<and>
   delete_requests (kube (main accepting_api \<lparr>verbose = False, dry_run = False\<rparr> 0
      [node_with ''a'' ''Ready'' (PyStr ''False'')])) = [] \<and>
   how_ended (main accepting_api \<lparr>verbose = False, dry_run = False\<rparr> 0
      [node_with ''a'' ''Ready'' (PyStr ''False'')]) = Finished"
proof -
  have find: "find (\<lambda>c. cond_type c = ''Ready'')
                (conditions (status (node_with ''a'' ''Ready'' (PyStr ''False''))))
              = Some \<lparr>cond_type = ''Ready'', cond_status = PyStr ''False''\<rparr>"
    by (simp add: node_with_def)
  have ready: "is_node_ready (node_with ''a'' ''Ready'' (PyStr ''False'')) = (PyStr ''False'', [])"
    using ready_status_is_returned [OF find] by simp
  then have kept: "nodes_for_cleanup [node_with ''a'' ''Ready'' (PyStr ''False'')] = ([], [])"
    by simp
  show ?thesis
    using ready kept
    by (simp add: main_def main_deletions_def terminate_nodes_def Let_def)
qed





text \<open>
  When the condition list is present and holds no condition of type 'Ready', the loop runs
  to its end: \<^verbatim>\<open>is_node_ready\<close> logs one error (naming the node and its conditions) and
  returns \<^verbatim>\<open>True\<close>, and such a node is never among the nodes selected, whatever the list.
\<close>

theorem no_ready_condition_is_kept:
  assumes "find (\<lambda>c. cond_type c = ''Ready'') (conditions (status node)) = None"
  shows "is_node_ready node =
           (PyBool True,
            [(ERROR, NoReadyCondition (name (metadata node)) (conditions (status node)))]) \<and>
         node \<notin> set (fst (nodes_for_cleanup nodes))"
proof -
  have r: "is_node_ready node =
           (PyBool True,
            [(ERROR, NoReadyCondition (name (metadata node)) (conditions (status node)))])"
    using assms by (simp add: is_node_ready_def is_node_ready_loop_find)
  then show ?thesis by (simp add: fst_nodes_for_cleanup)
qed

theorem no_ready_condition_is_kept_witness:
  "find (\<lambda>c. cond_type c = ''Ready'')
     (conditions (status (node_with ''c'' ''MemoryPressure'' (PyStr ''Unknown'')))) = None \<and>
   is_node_ready (node_with ''c'' ''MemoryPressure'' (PyStr ''Unknown'')) =
     (PyBool True,
      [(ERROR, NoReadyCondition ''c''
          [\<lparr>cond_type = ''MemoryPressure'', cond_status = PyStr ''Unknown''\<rparr>])]) \<and>
   node_with ''c'' ''MemoryPressure'' (PyStr ''Unknown'')
     \<notin> set (fst (nodes_for_cleanup
          [node_with ''c'' ''MemoryPressure'' (PyStr ''Unknown''),
           node_with ''b'' ''Ready'' (PyStr ''Unknown'')]))"
proof -
  have f: "find (\<lambda>c. cond_type c = ''Ready'')
     (conditions (status (node_with ''c'' ''MemoryPressure'' (PyStr ''Unknown'')))) = None"
    by (simp add: node_with_def)
  have fields: "name (metadata (node_with ''c'' ''MemoryPressure'' (PyStr ''Unknown''))) = ''c''"
    "conditions (status (node_with ''c'' ''MemoryPressure'' (PyStr ''Unknown''))) =
       [\<lparr>cond_type = ''MemoryPressure'', cond_status = PyStr ''Unknown''\<rparr>]"
    by (simp_all add: node_with_def)
  from no_ready_condition_is_kept [OF f,
      of "[node_with ''c'' ''MemoryPressure'' (PyStr ''Unknown''),
           node_with ''b'' ''Ready'' (PyStr ''Unknown'')]"]
  show ?thesis using f by (simp only: fields simp_thms)
qed

text \<open>
  C10: the output of \<^verbatim>\<open>nodes_for_cleanup\<close> is a subsequence of its input, and running
  \<^verbatim>\<open>nodes_for_cleanup\<close> on that output returns it unchanged (and logs nothing, since every
  selected node has a 'Ready' condition).
\<close>

theorem nodes_for_cleanup_idempotent:
  "subseq (fst (nodes_for_cleanup nodes)) nodes \<and>
   nodes_for_cleanup (fst (nodes_for_cleanup nodes)) = (fst (nodes_for_cleanup nodes), [])"
proof -
  let ?P = "\<lambda>node. \<not> truthy (fst (is_node_ready node))"
  have "fst (nodes_for_cleanup (filter ?P nodes)) = filter ?P nodes"
    by (simp add: fst_nodes_for_cleanup)
  moreover have "snd (nodes_for_cleanup (filter ?P nodes)) = []"
    by (simp add: snd_nodes_for_cleanup not_ready_logs_nothing)
  ultimately have "nodes_for_cleanup (filter ?P nodes) = (filter ?P nodes, [])"
    by (simp add: prod_eq_iff)
  then show ?thesis by (simp add: fst_nodes_for_cleanup)
qed

section \<open>Properties of the deletion loop\<close>

lemma delete_node_trace:
  "delete_node api client node = (r, client') \<Longrightarrow>
     delete_requests client' = delete_requests client @ [(node, r)]"
  by (auto simp: delete_node_def split: prod.splits)

text \<open>
  The invariant of the loop, for any accumulators: the requests it adds are requests for a
  prefix of the list, in order; if it returns, the prefix is the whole list and the two
  accumulators have grown by the requests that returned and by those that raised; if it is
  left by an exception, the last request is the one that raised it.
\<close>

lemma terminate_nodes_loop_trace:
  "terminate_nodes_loop api client nodes success errors = (outcome, client') \<Longrightarrow>
   \<exists>tr. delete_requests client' = delete_requests client @ tr \<and>
        prefix (map fst tr) nodes \<and>
        (case outcome of
           Inr (success', errors') \<Rightarrow>
             map fst tr = nodes \<and>
             (\<exists>s e. success' = success @ s \<and> errors' = errors @ e \<and>
               map (\<lambda>n. (n, Returned)) s = filter (\<lambda>p. snd p = Returned) tr \<and>
               map (\<lambda>(n, x). (n, Raised x)) e = filter (\<lambda>p. snd p \<noteq> Returned) tr)
         | Inl x \<Rightarrow>
             tr \<noteq> [] \<and> snd (last tr) = Raised x \<and> \<not> is_ApiException x)"
proof (induction nodes arbitrary: client success errors)
  case Nil
  then show ?case by auto
next
  case (Cons node nodes)
  obtain r c1 where d: "delete_node api client node = (r, c1)"
    by (cases "delete_node api client node")
  have t1: "delete_requests c1 = delete_requests client @ [(node, r)]"
    using delete_node_trace [OF d] .
  show ?case
  proof (cases r)
    case Returned
    with Cons.prems d
    have "terminate_nodes_loop api c1 nodes (success @ [node]) errors = (outcome, client')"
      by simp
    from Cons.IH [OF this] obtain tr where
      "delete_requests client' = delete_requests c1 @ tr" "prefix (map fst tr) nodes"
      "(case outcome of
           Inr (success', errors') \<Rightarrow>
             map fst tr = nodes \<and>
             (\<exists>s e. success' = (success @ [node]) @ s \<and> errors' = errors @ e \<and>
               map (\<lambda>n. (n, Returned)) s = filter (\<lambda>p. snd p = Returned) tr \<and>
               map (\<lambda>(n, x). (n, Raised x)) e = filter (\<lambda>p. snd p \<noteq> Returned) tr)
         | Inl x \<Rightarrow>
             tr \<noteq> [] \<and> snd (last tr) = Raised x \<and> \<not> is_ApiException x)"
      by blast
    with t1 Returned show ?thesis
      by (intro exI [of _ "(node, r) # tr"]) (auto split: sum.splits)
  next
    case (Raised e)
    show ?thesis
    proof (cases "is_ApiException e")
      case True
      with Raised Cons.prems d
      have "terminate_nodes_loop api c1 nodes success (errors @ [(node, e)]) = (outcome, client')"
        by simp
      from Cons.IH [OF this] obtain tr where
        "delete_requests client' = delete_requests c1 @ tr" "prefix (map fst tr) nodes"
        "(case outcome of
           Inr (success', errors') \<Rightarrow>
             map fst tr = nodes \<and>
             (\<exists>s e'. success' = success @ s \<and> errors' = (errors @ [(node, e)]) @ e' \<and>
               map (\<lambda>n. (n, Returned)) s = filter (\<lambda>p. snd p = Returned) tr \<and>
               map (\<lambda>(n, x). (n, Raised x)) e' = filter (\<lambda>p. snd p \<noteq> Returned) tr)
         | Inl x \<Rightarrow>
             tr \<noteq> [] \<and> snd (last tr) = Raised x \<and> \<not> is_ApiException x)"
        by blast
      with t1 Raised True show ?thesis
        by (intro exI [of _ "(node, r) # tr"]) (auto split: sum.splits)
    next
      case False
      with Raised Cons.prems d have "outcome = Inl e" "client' = c1" by simp_all
      with t1 Raised False show ?thesis
        by (intro exI [of _ "[(node, r)]"]) auto
    qed
  qed
qed

lemma terminate_nodes_trace:
  assumes "terminate_nodes api client nodes = (outcome, client')"
  shows "\<exists>tr. delete_requests client' = delete_requests client @ tr \<and>
        prefix (map fst tr) nodes \<and>
        (case outcome of
           Inr (success, errors) \<Rightarrow>
             map fst tr = nodes \<and>
             map (\<lambda>n. (n, Returned)) success = filter (\<lambda>p. snd p = Returned) tr \<and>
             map (\<lambda>(n, x). (n, Raised x)) errors = filter (\<lambda>p. snd p \<noteq> Returned) tr
         | Inl x \<Rightarrow>
             tr \<noteq> [] \<and> snd (last tr) = Raised x \<and> \<not> is_ApiException x)"
  using terminate_nodes_loop_trace [OF assms [unfolded terminate_nodes_def]]
  by (auto split: sum.splits)

lemma requests_since_append:
  "delete_requests client' = delete_requests client @ tr \<Longrightarrow> requests_since client client' = tr"
  by (simp add: requests_since_def)

lemma subseq_of_filter_image:
  assumes "map f ys = filter P xs" and "\<And>y. g (f y) = h y"
  shows "subseq (map h ys) (map g xs)"
proof -
  have "map h ys = map g (map f ys)" by (simp add: assms(2))
  also have "\<dots> = map g (filter P xs)" by (simp add: assms(1))
  finally show ?thesis by (simp add: subseq_map)
qed

text \<open>
  C4, as the script has it. The claim holds for failures that arrive as \<^verbatim>\<open>ApiException\<close>,
  the one class the \<^verbatim>\<open>except\<close> clause names: when no delete request of the call raised
  anything else, \<^verbatim>\<open>terminate_nodes\<close> returns, it has sent one request per element of the
  list, in order, whatever the earlier requests answered, and \<^verbatim>\<open>success\<close> and \<^verbatim>\<open>errors\<close>
  are the requests that returned and the requests that raised, each in request order, so
  that they split the list between them and each is a subsequence of it.
\<close>

theorem terminate_nodes_collects:
  assumes run: "terminate_nodes api client nodes = (outcome, client')"
    and caught: "list_all (\<lambda>p. \<not> aborts (snd p)) (requests_since client client')"
  shows "map fst (requests_since client client') = nodes \<and>
         (\<exists>success errors. outcome = Inr (success, errors) \<and>
            map (\<lambda>n. (n, Returned)) success =
              filter (\<lambda>p. snd p = Returned) (requests_since client client') \<and>
            map (\<lambda>(n, x). (n, Raised x)) errors =
              filter (\<lambda>p. snd p \<noteq> Returned) (requests_since client client') \<and>
            subseq success nodes \<and> subseq (map fst errors) nodes \<and>
            length success + length errors = length nodes)"
proof -
  from terminate_nodes_trace [OF run] obtain tr where
    tr: "delete_requests client' = delete_requests client @ tr"
    and c: "(case outcome of
           Inr (success, errors) \<Rightarrow>
             map fst tr = nodes \<and>
             map (\<lambda>n. (n, Returned)) success = filter (\<lambda>p. snd p = Returned) tr \<and>
             map (\<lambda>(n, x). (n, Raised x)) errors = filter (\<lambda>p. snd p \<noteq> Returned) tr
         | Inl x \<Rightarrow>
             tr \<noteq> [] \<and> snd (last tr) = Raised x \<and> \<not> is_ApiException x)"
    by blast
  have since: "requests_since client client' = tr"
    using tr by (rule requests_since_append)
  show ?thesis
  proof (cases outcome)
    case (Inl x)
    with c have "tr \<noteq> []" and l: "snd (last tr) = Raised x" "\<not> is_ApiException x"
      by simp_all
    from \<open>tr \<noteq> []\<close> have "last tr \<in> set tr" by simp
    with caught since have "\<not> aborts (snd (last tr))" by (simp add: list_all_iff)
    with l have False by simp
    then show ?thesis ..
  next
    case (Inr pair)
    obtain success errors where pair: "pair = (success, errors)" by (cases pair)
    from c Inr pair have names: "map fst tr = nodes"
      and s: "map (\<lambda>n. (n, Returned)) success = filter (\<lambda>p. snd p = Returned) tr"
      and e: "map (\<lambda>(n, x). (n, Raised x)) errors = filter (\<lambda>p. snd p \<noteq> Returned) tr"
      by simp_all
    have "subseq (map (\<lambda>n. n) success) (map fst tr)"
      using s by (rule subseq_of_filter_image) simp
    then have ss: "subseq success nodes" using names by simp
    have "subseq (map fst errors) (map fst tr)"
      using e by (rule subseq_of_filter_image) (simp split: prod.splits)
    then have se: "subseq (map fst errors) nodes" using names by simp
    have "length success + length errors =
            length (map (\<lambda>n. (n, Returned)) success)
            + length (map (\<lambda>(n, x). (n, Raised x)) errors)"
      by simp
    also have "\<dots> = length (filter (\<lambda>p. snd p = Returned) tr)
                    + length (filter (\<lambda>p. snd p \<noteq> Returned) tr)"
      by (simp only: s e)
    also have "\<dots> = length tr" by (rule sum_length_filter_compl)
    also have "\<dots> = length nodes" using names by (metis length_map)
    finally have len: "length success + length errors = length nodes" .
    show ?thesis using Inr pair names s e ss se len since by simp
  qed
qed

theorem terminate_nodes_collects_witness:
  "terminate_nodes rejecting_b_api fresh_client [''a'', ''b'', ''c''] =
     (Inr ([''a'', ''c''], [(''b'', ApiException ''Forbidden'')]),
      \<lparr>cluster = 2,
       delete_requests =
         [(''a'', Returned), (''b'', Raised (ApiException ''Forbidden'')), (''c'', Returned)]\<rparr>) \<and>
   list_all (\<lambda>p. \<not> aborts (snd p))
     (requests_since fresh_client
        \<lparr>cluster = 2,
         delete_requests =
           [(''a'', Returned), (''b'', Raised (ApiException ''Forbidden'')), (''c'', Returned)]\<rparr>) \<and>
   map fst
     (requests_since fresh_client
        \<lparr>cluster = 2,
         delete_requests =
           [(''a'', Returned), (''b'', Raised (ApiException ''Forbidden'')), (''c'', Returned)]\<rparr>)
     = [''a'', ''b'', ''c''] \<and>
   subseq [''a'', ''c''] [''a'', ''b'', ''c''] \<and>
   subseq (map fst [(''b'', ApiException ''Forbidden'')]) [''a'', ''b'', ''c'']"
proof -
  let ?client' = "\<lparr>cluster = 2::nat,
       delete_requests =
         [(''a'', Returned), (''b'', Raised (ApiException ''Forbidden'')), (''c'', Returned)]\<rparr>"
  have run: "terminate_nodes rejecting_b_api fresh_client [''a'', ''b'', ''c''] =
     (Inr ([''a'', ''c''], [(''b'', ApiException ''Forbidden'')]), ?client')"
    by (simp add: terminate_nodes_def delete_node_def rejecting_b_api_def fresh_client_def)
  have caught: "list_all (\<lambda>p. \<not> aborts (snd p)) (requests_since fresh_client ?client')"
    by (simp add: requests_since_def fresh_client_def)
  from terminate_nodes_collects [OF run caught]
  show ?thesis using run caught by auto
qed

text \<open>
  C4 as written, for every input and every failure, does not hold: a request that raises an
  exception outside \<^verbatim>\<open>ApiException\<close> (here, a control plane that cannot be reached) is not
  caught. The exception leaves \<^verbatim>\<open>terminate_nodes\<close> at the first node; no request is sent
  for node \<^verbatim>\<open>b\<close> and no pair of lists is returned.
\<close>

theorem terminate_nodes_aborts_counterexample:
  "fst (terminate_nodes unreachable_api fresh_client [''a'', ''b''])
     = Inl (OtherException ''Connection refused'') \<and>
   map fst (delete_requests (snd (terminate_nodes unreachable_api fresh_client [''a'', ''b''])))
     = [''a''] \<and>
   ''b'' \<notin> set (map fst
      (delete_requests (snd (terminate_nodes unreachable_api fresh_client [''a'', ''b'']))))"
  by (simp add: terminate_nodes_def delete_node_def unreachable_api_def fresh_client_def)

section \<open>Properties of a run\<close>

lemma main_kube:
  "kube (main api a c all_nodes) =
     (if dry_run a then \<lparr>cluster = c, delete_requests = []\<rparr>
      else snd (terminate_nodes api \<lparr>cluster = c, delete_requests = []\<rparr>
                  (map (\<lambda>node. name (metadata node)) (fst (nodes_for_cleanup all_nodes)))))"
  by (simp add: main_def main_deletions_def Let_def split: prod.splits sum.splits)

lemma main_how_ended:
  "how_ended (main api a c all_nodes) =
     (if dry_run a then Finished
      else (case fst (terminate_nodes api \<lparr>cluster = c, delete_requests = []\<rparr>
                  (map (\<lambda>node. name (metadata node)) (fst (nodes_for_cleanup all_nodes)))) of
              Inl e \<Rightarrow> Uncaught e
            | Inr (success, errors) \<Rightarrow> if errors \<noteq> [] then SystemExit 1 else Finished))"
  by (simp add: main_def main_deletions_def Let_def split: prod.splits sum.splits)



text \<open>
  C5: with the dry-run flag set, the branch of \<^verbatim>\<open>main\<close> that calls \<^verbatim>\<open>terminate_nodes\<close> is
  not taken: \<^verbatim>\<open>success\<close> and \<^verbatim>\<open>errors\<close> are both empty, the client is handed back as it
  was, and at the end of the run no delete request has been sent and the cluster state is
  the one the run started with, whatever the control plane would have answered.
\<close>

theorem dry_run_deletes_nothing:
  "dry_run a \<Longrightarrow>
     main_deletions api a kube_client filtered_nodes =
       (Inr ([], []), kube_client, [(INFO, DryRunDetected)]) \<and>
     kube (main api a c all_nodes) = \<lparr>cluster = c, delete_requests = []\<rparr> \<and>
     how_ended (main api a c all_nodes) = Finished"
  by (simp add: main_kube main_how_ended main_deletions_def)

theorem dry_run_deletes_nothing_witness:
  "dry_run \<lparr>verbose = False, dry_run = True\<rparr> \<and>
   main_deletions accepting_api \<lparr>verbose = False, dry_run = True\<rparr> fresh_client
      [node_with ''b'' ''Ready'' (PyStr ''Unknown'')] =
       (Inr ([], []), fresh_client, [(INFO, DryRunDetected)]) \<and>
   kube (main accepting_api \<lparr>verbose = False, dry_run = True\<rparr> 0
      [node_with ''b'' ''Ready'' (PyStr ''Unknown'')]) = \<lparr>cluster = 0, delete_requests = []\<rparr>"
proof -
  have d: "dry_run \<lparr>verbose = False, dry_run = True\<rparr>" by simp
  from dry_run_deletes_nothing [OF d, of accepting_api fresh_client
      "[node_with ''b'' ''Ready'' (PyStr ''Unknown'')]" 0
      "[node_with ''b'' ''Ready'' (PyStr ''Unknown'')]"]
  show ?thesis using d by blast
qed

text \<open>
  C6, as the script has it. In a run that is not a dry run, the delete requests are sent
  for the names of the nodes that \<^verbatim>\<open>nodes_for_cleanup\<close> selected from the full node list,
  in that order and starting from the first: what was requested is always a prefix of that
  list of names, so nothing outside it is ever requested, and it is the whole list
  whenever the run is not cut short by an exception that \<^verbatim>\<open>terminate_nodes\<close> does not
  catch.
\<close>

theorem main_deletes_filtered_only:
  assumes "\<not> dry_run a"
  shows "prefix (map fst (delete_requests (kube (main api a c all_nodes))))
           (map (\<lambda>node. name (metadata node)) (fst (nodes_for_cleanup all_nodes))) \<and>
         ((\<forall>e. how_ended (main api a c all_nodes) \<noteq> Uncaught e) \<longrightarrow>
            map fst (delete_requests (kube (main api a c all_nodes))) =
              map (\<lambda>node. name (metadata node)) (fst (nodes_for_cleanup all_nodes)))"
proof -
  let ?names = "map (\<lambda>node. name (metadata node)) (fst (nodes_for_cleanup all_nodes))"
  obtain outcome client' where
    run: "terminate_nodes api \<lparr>cluster = c, delete_requests = []\<rparr> ?names = (outcome, client')"
    by (cases "terminate_nodes api \<lparr>cluster = c, delete_requests = []\<rparr> ?names")
  from terminate_nodes_trace [OF run] obtain tr where
    tr: "delete_requests client' = tr" and p: "prefix (map fst tr) ?names"
    and c: "(case outcome of
           Inr (success, errors) \<Rightarrow>
             map fst tr = ?names \<and>
             map (\<lambda>n. (n, Returned)) success = filter (\<lambda>p. snd p = Returned) tr \<and>
             map (\<lambda>(n, x). (n, Raised x)) errors = filter (\<lambda>p. snd p \<noteq> Returned) tr
         | Inl x \<Rightarrow>
             tr \<noteq> [] \<and> snd (last tr) = Raised x \<and> \<not> is_ApiException x)"
    by auto
  have k: "kube (main api a c all_nodes) = client'"
    using assms run by (simp add: main_kube)
  have h: "how_ended (main api a c all_nodes) =
             (case outcome of Inl e \<Rightarrow> Uncaught e
              | Inr (success, errors) \<Rightarrow> if errors \<noteq> [] then SystemExit 1 else Finished)"
    using assms run by (simp add: main_how_ended)
  show ?thesis
  proof (cases outcome)
    case (Inl x)
    then show ?thesis using k tr p h by simp
  next
    case (Inr pair)
    then show ?thesis using k tr p c by (auto split: prod.splits)
  qed
qed

lemma rejecting_b_run:
  "main rejecting_b_api \<lparr>verbose = False, dry_run = False\<rparr> 0
     [node_with ''a'' ''Ready'' (PyStr ''Unknown''), node_with ''b'' ''Ready'' (PyStr ''Unknown''),
      node_with ''c'' ''Ready'' (PyStr ''True'')] =
   \<lparr>how_ended = SystemExit 1,
    logged = [(ERROR, ErrorDeletingNode ''b'' (ApiException ''Forbidden''))],
    kube = \<lparr>cluster = 1,
            delete_requests = [(''a'', Returned), (''b'', Raised (ApiException ''Forbidden''))]\<rparr>\<rparr>"
  by (simp add: main_def main_deletions_def terminate_nodes_def delete_node_def
      rejecting_b_api_def is_node_ready_def node_with_def Let_def emitted_def logging_level_def)

theorem main_deletes_filtered_only_witness:
  "\<not> dry_run \<lparr>verbose = False, dry_run = False\<rparr> \<and>
   how_ended (main rejecting_b_api \<lparr>verbose = False, dry_run = False\<rparr> 0
     [node_with ''a'' ''Ready'' (PyStr ''Unknown''), node_with ''b'' ''Ready'' (PyStr ''Unknown''),
      node_with ''c'' ''Ready'' (PyStr ''True'')]) = SystemExit 1 \<and>
   map fst (delete_requests (kube (main rejecting_b_api \<lparr>verbose = False, dry_run = False\<rparr> 0
     [node_with ''a'' ''Ready'' (PyStr ''Unknown''), node_with ''b'' ''Ready'' (PyStr ''Unknown''),
      node_with ''c'' ''Ready'' (PyStr ''True'')]))) =
   map (\<lambda>node. name (metadata node))
     (fst (nodes_for_cleanup
       [node_with ''a'' ''Ready'' (PyStr ''Unknown''), node_with ''b'' ''Ready'' (PyStr ''Unknown''),
        node_with ''c'' ''Ready'' (PyStr ''True'')]))"
proof -
  have d: "\<not> dry_run \<lparr>verbose = False, dry_run = False\<rparr>" by simp
  from main_deletes_filtered_only [OF d, of rejecting_b_api 0
     "[node_with ''a'' ''Ready'' (PyStr ''Unknown''), node_with ''b'' ''Ready'' (PyStr ''Unknown''),
      node_with ''c'' ''Ready'' (PyStr ''True'')]"]
  show ?thesis using d by (simp add: rejecting_b_run)
qed

text \<open>
  C6 as written does not hold for every run: with two nodes selected and a control plane
  that cannot be reached, the first request raises an exception that is not an
  \<^verbatim>\<open>ApiException\<close>, the run ends there, and a deletion has been attempted for \<^verbatim>\<open>a\<close> only,
  not for the whole of the filtered list.
\<close>

theorem main_aborts_counterexample:
  "\<not> dry_run \<lparr>verbose = False, dry_run = False\<rparr> \<and>
   map (name \<circ> metadata)
     (fst (nodes_for_cleanup
        [node_with ''a'' ''Ready'' (PyStr ''Unknown''), node_with ''b'' ''Ready'' (PyStr ''Unknown'')]))
     = [''a'', ''b''] \<and>
   map fst (delete_requests (kube (main unreachable_api \<lparr>verbose = False, dry_run = False\<rparr> 0
        [node_with ''a'' ''Ready'' (PyStr ''Unknown''), node_with ''b'' ''Ready'' (PyStr ''Unknown'')])))
     = [''a''] \<and>
   set (map fst (delete_requests (kube (main unreachable_api \<lparr>verbose = False, dry_run = False\<rparr> 0
        [node_with ''a'' ''Ready'' (PyStr ''Unknown''), node_with ''b'' ''Ready'' (PyStr ''Unknown'')]))))
     \<noteq> set (map (name \<circ> metadata)
          (fst (nodes_for_cleanup
            [node_with ''a'' ''Ready'' (PyStr ''Unknown''),
             node_with ''b'' ''Ready'' (PyStr ''Unknown'')])))"
  by (simp add: main_def main_deletions_def terminate_nodes_def delete_node_def
      unreachable_api_def is_node_ready_def node_with_def Let_def)

section \<open>Nodes without a condition list\<close>





text \<open>
  C9 says that a node whose status holds no condition of type 'Ready' is treated as ready:
  an error is logged and \<^verbatim>\<open>True\<close> returned. Lines 72 and 73 do that when the loop runs to
  its end, but a node without any condition arrives with \<^verbatim>\<open>conditions\<close> set to \<^verbatim>\<open>None\<close>,
  and then the loop header on line 67 raises \<^verbatim>\<open>TypeError\<close>: nothing is logged, nothing is
  returned, and \<^verbatim>\<open>nodes_for_cleanup\<close> is left by the exception, even when the list holds a
  node that would have been selected.
\<close>

theorem conditions_none_raises:
  "listed_conditions node_without_conditions = None \<and>
   returned (is_node_ready_listed node_without_conditions) = Inl (OtherException ''TypeError'') \<and>
   run_log (is_node_ready_listed node_without_conditions) = [] \<and>
   selected (nodes_for_cleanup_listed
      [listed (node_with ''b'' ''Ready'' (PyStr ''Unknown'')), node_without_conditions])
     = Inl (OtherException ''TypeError'')"
  by (simp add: node_without_conditions_def is_node_ready_listed_def listed_def node_with_def)

section \<open>One pass\<close>








end
